theory Spec2Isabelle
  imports Main "HOL-Library.Word"
begin

section \<open>Data model of main.go\<close>

text \<open>
  Go's \<open>error\<close> values are opaque to main.go: it only tests them against \<open>nil\<close> and
  passes them on. \<open>DeadlineExceeded\<close> is the error a call returns when its context's
  deadline has passed; every other failure (connection, command, decoding, file system)
  carries its message.
\<close>

datatype error = DeadlineExceeded | Failure string

text \<open>
  \<open>int\<close> is 64 bits wide on the build target of the Makefile (GOARCH=amd64);
  \<open>uint\<close> likewise. \<open>time.Duration\<close> counts nanoseconds; \<open>time.Time\<close> values are only
  decoded, never printed, and are kept as a number of nanoseconds.
\<close>

type_synonym go_int = "64 word"
type_synonym go_uint = "64 word"
type_synonym Duration = int
type_synonym Time = int

definition Second :: Duration where
  "Second = 1000000000"

datatype Context = Background | TODO | WithTimeout Context Duration

record Role =
  Role_DB :: string
  Role_Role :: string

record User =
  User_ID :: string
  User_DB :: string
  User_Mechanisms :: "string list"
  User_Roles :: "Role list"
  User_User :: string

record UsersResp =
  UsersResp_Users :: "User list"

record ReplSetMemberConfig =
  ReplSetMemberConfig_ID :: go_int
  ReplSetMemberConfig_ArbiterOnly :: bool
  ReplSetMemberConfig_BuildIndexes :: bool
  ReplSetMemberConfig_Hidden :: bool
  ReplSetMemberConfig_Host :: string
  ReplSetMemberConfig_Priority :: go_int
  ReplSetMemberConfig_SlaveDelay :: go_int
  ReplSetMemberConfig_Votes :: go_int

record ReplSetConfig =
  ReplSetConfig_ID :: string
  ReplSetConfig_Members :: "ReplSetMemberConfig list"
  ReplSetConfig_ProtocolVersion :: go_int

record ReplSetConfigResp =
  ReplSetConfigResp_Config :: ReplSetConfig

record ReplMember =
  ReplMember_ID :: go_int
  ReplMember_ConfigVersion :: go_int
  ReplMember_InfoMessage :: string
  ReplMember_LastHeartbeat :: Time
  ReplMember_LastHeartbeatMessage :: string
  ReplMember_LastHeartbeatRecv :: Time
  ReplMember_Name :: string
  ReplMember_State :: go_int
  ReplMember_StateStr :: string
  ReplMember_SyncSourceHost :: string
  ReplMember_SyncSourceID :: go_int
  ReplMember_SyncingTo :: string
  ReplMember_Uptime :: go_int
  ReplMember_ElectionDate :: Time
  ReplMember_Health :: go_int
  ReplMember_PingMS :: go_int

record ReplSetStatus =
  ReplSetStatus_Members :: "ReplMember list"
  ReplSetStatus_MyState :: go_int
  ReplSetStatus_OK :: go_int
  ReplSetStatus_Set :: string
  ReplSetStatus_Term :: go_int
  ReplSetStatus_SyncSourceHost :: string
  ReplSetStatus_SyncSourceID :: go_int
  ReplSetStatus_SyncingTo :: string
  ReplSetStatus_HeartbeatIntervalMillis :: go_int
  ReplSetStatus_Date :: Time

section \<open>The MongoDB driver and the MongoManager\<close>

text \<open>
  The driver (go.mongodb.org/mongo-driver) and the server behind it are outside the
  program. Each call main.go makes is a field: the context and the arguments go in, an
  error or the decoded reply comes out. \<open>RunUsersInfo\<close>, \<open>RunReplSetGetConfig\<close> and
  \<open>RunReplSetGetStatus\<close> are \<open>Database("admin").RunCommand(ctx, cmd).Decode(&v)\<close> for
  the three commands of main.go. \<open>'c\<close> is the client handle \<open>*mongo.Client\<close>.
\<close>

record 'c Driver =
  Connect :: "Context \<Rightarrow> string \<Rightarrow> error + 'c"
  ListDatabaseNames :: "'c \<Rightarrow> Context \<Rightarrow> error + string list"
  RunUsersInfo :: "'c \<Rightarrow> Context \<Rightarrow> error + UsersResp"
  RunReplSetGetConfig :: "'c \<Rightarrow> Context \<Rightarrow> error + ReplSetConfigResp"
  RunReplSetGetStatus :: "'c \<Rightarrow> Context \<Rightarrow> error + ReplSetStatus"

record 'c MongoManager =
  conn :: 'c

definition NewMongoManager :: "'c \<Rightarrow> 'c MongoManager" where
  "NewMongoManager c = \<lparr>conn = c\<rparr>"

definition AllDatabaseNames ::
  "'c Driver \<Rightarrow> 'c MongoManager \<Rightarrow> Context \<Rightarrow> error + string list" where
  "AllDatabaseNames drv mm ctx = ListDatabaseNames drv (conn mm) ctx"

definition AllUsers :: "'c Driver \<Rightarrow> 'c MongoManager \<Rightarrow> Context \<Rightarrow> error + User list" where
  "AllUsers drv mm ctx =
     (case RunUsersInfo drv (conn mm) ctx of
        Inl err \<Rightarrow> Inl err
      | Inr users \<Rightarrow> Inr (UsersResp_Users users))"

definition Config :: "'c Driver \<Rightarrow> 'c MongoManager \<Rightarrow> Context \<Rightarrow> error + ReplSetConfig" where
  "Config drv mm ctx =
     (case RunReplSetGetConfig drv (conn mm) ctx of
        Inl err \<Rightarrow> Inl err
      | Inr replConf \<Rightarrow> Inr (ReplSetConfigResp_Config replConf))"

definition ReplStatus :: "'c Driver \<Rightarrow> 'c MongoManager \<Rightarrow> Context \<Rightarrow> error + ReplSetStatus" where
  "ReplStatus drv mm ctx =
     (case RunReplSetGetStatus drv (conn mm) ctx of
        Inl err \<Rightarrow> Inl err
      | Inr replSetStatus \<Rightarrow> Inr replSetStatus)"

section \<open>Formatting\<close>

text \<open>
  \<open>%d\<close> prints an \<open>int\<close> in signed decimal, \<open>%v\<close> prints a \<open>bool\<close> as \<open>true\<close> or
  \<open>false\<close>, \<open>%s\<close> copies the bytes of the string unchanged.
\<close>

definition digit :: "nat \<Rightarrow> char" where
  "digit n = char_of (48 + n)"

fun showNat :: "nat \<Rightarrow> string" where
  "showNat n = (if n < 10 then [digit n] else showNat (n div 10) @ [digit (n mod 10)])"

declare showNat.simps [simp del]

definition fmt_d :: "go_int \<Rightarrow> string" where
  "fmt_d i = (if sint i < 0 then CHR ''-'' # showNat (nat (- sint i)) else showNat (nat (sint i)))"

definition fmt_v :: "bool \<Rightarrow> string" where
  "fmt_v b = (if b then ''true'' else ''false'')"

text \<open>The five format strings of \<open>mongoInfo\<close>, applied to their arguments.\<close>

definition dbLine :: "string \<Rightarrow> string" where
  "dbLine name = ''DB: '' @ name @ ''\<newline>''"

definition userLine :: "User \<Rightarrow> string" where
  "userLine user = ''USER: db='' @ User_DB user @ '', user='' @ User_User user @ ''\<newline>''"

definition roleLine :: "User \<Rightarrow> Role \<Rightarrow> string" where
  "roleLine user role =
     ''USER_ROLE: db='' @ User_DB user @ '', user='' @ User_User user
       @ '', role='' @ Role_DB role @ ''/'' @ Role_Role role @ ''\<newline>''"

definition settingLine :: "ReplSetMemberConfig \<Rightarrow> string" where
  "settingLine setting =
     ''SETTING: id='' @ fmt_d (ReplSetMemberConfig_ID setting)
       @ '', host='' @ ReplSetMemberConfig_Host setting
       @ '', vote='' @ fmt_d (ReplSetMemberConfig_Votes setting)
       @ '', arbiterOnly='' @ fmt_v (ReplSetMemberConfig_ArbiterOnly setting)
       @ '', buildIndexes='' @ fmt_v (ReplSetMemberConfig_BuildIndexes setting)
       @ '', hidden='' @ fmt_v (ReplSetMemberConfig_Hidden setting)
       @ '', priority='' @ fmt_d (ReplSetMemberConfig_Priority setting) @ ''\<newline>''"

definition statLine :: "ReplMember \<Rightarrow> string" where
  "statLine stat =
     ''REPL_STAT: id='' @ fmt_d (ReplMember_ID stat)
       @ '', name='' @ ReplMember_Name stat
       @ '', state='' @ ReplMember_StateStr stat
       @ '', health='' @ fmt_d (ReplMember_Health stat)
       @ '', syncSourceHost='' @ ReplMember_SyncSourceHost stat
       @ '', syncingTo='' @ ReplMember_SyncingTo stat @ ''\<newline>''"

section \<open>Writers\<close>

text \<open>
  An \<open>io.Writer\<close> is its \<open>Write\<close> method over the state \<open>'w\<close> of whatever it writes
  to: the bytes go in, the new state and the error (if any) come out.
  \<open>fmt.Fprintf\<close> formats the whole line and hands it to \<open>Write\<close> in one call;
  \<open>_, _ = fmt.Fprintf(...)\<close> drops both the byte count and the error.
\<close>

type_synonym 'w Writer = "'w \<Rightarrow> string \<Rightarrow> 'w \<times> error option"

definition Fprintf_discard :: "'w Writer \<Rightarrow> 'w \<Rightarrow> string \<Rightarrow> 'w" where
  "Fprintf_discard wr out s = fst (wr out s)"

text \<open>\<open>bytes.Buffer\<close>: \<open>Write\<close> appends and its error is always \<open>nil\<close>.\<close>

definition bufferWrite :: "string Writer" where
  "bufferWrite buf s = (buf @ s, None)"

section \<open>mongoInfo\<close>

text \<open>The four \<open>for ... range\<close> loops; the loop over the roles is nested in the one over users.\<close>

fun writeDatabaseNames :: "'w Writer \<Rightarrow> 'w \<Rightarrow> string list \<Rightarrow> 'w" where
  "writeDatabaseNames wr out [] = out"
| "writeDatabaseNames wr out (name # names) =
     writeDatabaseNames wr (Fprintf_discard wr out (dbLine name)) names"

fun writeRoles :: "'w Writer \<Rightarrow> 'w \<Rightarrow> User \<Rightarrow> Role list \<Rightarrow> 'w" where
  "writeRoles wr out user [] = out"
| "writeRoles wr out user (role # roles) =
     writeRoles wr (Fprintf_discard wr out (roleLine user role)) user roles"

fun writeUsers :: "'w Writer \<Rightarrow> 'w \<Rightarrow> User list \<Rightarrow> 'w" where
  "writeUsers wr out [] = out"
| "writeUsers wr out (user # users) =
     writeUsers wr
       (writeRoles wr (Fprintf_discard wr out (userLine user)) user (User_Roles user)) users"

fun writeSettings :: "'w Writer \<Rightarrow> 'w \<Rightarrow> ReplSetMemberConfig list \<Rightarrow> 'w" where
  "writeSettings wr out [] = out"
| "writeSettings wr out (setting # settings) =
     writeSettings wr (Fprintf_discard wr out (settingLine setting)) settings"

fun writeStats :: "'w Writer \<Rightarrow> 'w \<Rightarrow> ReplMember list \<Rightarrow> 'w" where
  "writeStats wr out [] = out"
| "writeStats wr out (stat # stats) =
     writeStats wr (Fprintf_discard wr out (statLine stat)) stats"

text \<open>
  \<open>mongoInfo\<close> returns its error and the state of the writer it was given. Every
  \<open>return err\<close> of the source is an \<open>Inl\<close> branch here; what was written before it stays
  written. The deferred \<open>cancel()\<close> and \<open>connect.Disconnect(context.TODO())\<close> release the
  context and the connection; their results are dropped by the source.
\<close>

definition mongoInfo :: "'c Driver \<Rightarrow> string \<Rightarrow> 'w Writer \<Rightarrow> 'w \<Rightarrow> error option \<times> 'w" where
  "mongoInfo drv mongoURI wr out =
     (let ctx = WithTimeout Background (10 * Second) in
      (case Connect drv ctx mongoURI of
        Inl err \<Rightarrow> (Some err, out)
      | Inr connect \<Rightarrow>
         (let mm = NewMongoManager connect in
          (case AllDatabaseNames drv mm ctx of
            Inl err \<Rightarrow> (Some err, out)
          | Inr databaseNames \<Rightarrow>
             (let out1 = writeDatabaseNames wr out databaseNames in
              (case AllUsers drv mm ctx of
                Inl err \<Rightarrow> (Some err, out1)
              | Inr users \<Rightarrow>
                 (let out2 = writeUsers wr out1 users in
                  (case Config drv mm ctx of
                    Inl err \<Rightarrow> (Some err, out2)
                  | Inr conf \<Rightarrow>
                     (let out3 = writeSettings wr out2 (ReplSetConfig_Members conf) in
                      (case ReplStatus drv mm ctx of
                        Inl err \<Rightarrow> (Some err, out3)
                      | Inr replStat \<Rightarrow>
                          (None, writeStats wr out3 (ReplSetStatus_Members replStat))))))))))))"

section \<open>main\<close>

text \<open>
  The six flags after \<open>flag.Parse()\<close>. \<open>defaultFlags\<close> holds the defaults of the
  six \<open>flag.*Var\<close> calls.
\<close>

record Flags =
  mongoURI :: string
  dataDir :: string
  contextLine :: go_uint
  keepVersion :: go_uint
  noDiff :: bool
  diffName :: string

definition defaultFlags :: Flags where
  "defaultFlags =
     \<lparr>mongoURI = ''mongodb://localhost:27017'', dataDir = ''./tmp'', contextLine = 2,
      keepVersion = 100, noDiff = False, diffName = ''mongodb''\<rparr>"

text \<open>
  What the process can change outside itself: the local file system, where the version
  history lives, and standard output.
\<close>

record ('fs, 'o) World =
  fs :: 'fs
  stdout :: 'o

text \<open>
  The packages github.com/mylxsw/go-utils/file and github.com/mylxsw/go-utils/diff and
  the operating system's \<open>os.Stdout\<close> are not part of this program. Each call main.go
  makes is a field acting on the world; \<open>'l\<close> is the value \<open>DiffLatest\<close> returns.
  \<^item> \<open>osStdoutWrite\<close>: \<open>os.Stdout.Write\<close>;
  \<^item> \<open>MkDir dir\<close>: \<open>file.LocalFS{}.MkDir(dir)\<close>;
  \<^item> \<open>DiffLatest dir n name content\<close>:
    \<open>diff.NewDiffer(fs, dir, n).DiffLatest(name, content)\<close>;
  \<^item> \<open>PrintAndSave latest out\<close>: \<open>latest.PrintAndSave(out)\<close>;
  \<^item> \<open>Clean latest keep\<close>: \<open>latest.Clean(keep)\<close>.
\<close>

record ('fs, 'o, 'l) System =
  osStdoutWrite :: "'o Writer"
  MkDir :: "string \<Rightarrow> ('fs, 'o) World \<Rightarrow> error option \<times> ('fs, 'o) World"
  DiffLatest :: "string \<Rightarrow> int \<Rightarrow> string \<Rightarrow> string \<Rightarrow> ('fs, 'o) World \<Rightarrow> 'l \<times> ('fs, 'o) World"
  PrintAndSave :: "'l \<Rightarrow> 'o Writer \<Rightarrow> ('fs, 'o) World \<Rightarrow> error option \<times> ('fs, 'o) World"
  Clean :: "'l \<Rightarrow> go_uint \<Rightarrow> ('fs, 'o) World \<Rightarrow> error option \<times> ('fs, 'o) World"

text \<open>
  A run ends by returning from \<open>main\<close> (exit status 0) or by an unrecovered
  \<open>panic(err)\<close> (the Go runtime prints the error and exits with status 2).
\<close>

datatype Outcome = Returned | Panicked error

fun exitStatus :: "Outcome \<Rightarrow> nat" where
  "exitStatus Returned = 0"
| "exitStatus (Panicked err) = 2"

text \<open>The calls of \<open>main\<close>, in the order it makes them, are logged beside the result.\<close>

datatype Call =
    CallMongoInfo
  | CallMkDir string
  | CallDiffLatest string int string string
  | CallPrintAndSave
  | CallClean go_uint

definition main ::
  "'c Driver \<Rightarrow> ('fs, 'o, 'l) System \<Rightarrow> Flags \<Rightarrow> ('fs, 'o) World
     \<Rightarrow> Outcome \<times> ('fs, 'o) World \<times> Call list" where
  "main drv sys flags world =
     (if noDiff flags then
        (case mongoInfo drv (mongoURI flags) (osStdoutWrite sys) (stdout world) of
           (Some err, out) \<Rightarrow> (Panicked err, world\<lparr>stdout := out\<rparr>, [CallMongoInfo])
         | (None, out) \<Rightarrow> (Returned, world\<lparr>stdout := out\<rparr>, [CallMongoInfo]))
      else
        (case mongoInfo drv (mongoURI flags) bufferWrite [] of
           (Some err, buffer) \<Rightarrow> (Panicked err, world, [CallMongoInfo])
         | (None, buffer) \<Rightarrow>
            (case MkDir sys (dataDir flags) world of
               (Some err, world1) \<Rightarrow>
                 (Panicked err, world1, [CallMongoInfo, CallMkDir (dataDir flags)])
             | (None, world1) \<Rightarrow>
                (case DiffLatest sys (dataDir flags) (sint (contextLine flags))
                        (diffName flags) buffer world1 of
                   (latest, world2) \<Rightarrow>
                    (case PrintAndSave sys latest (osStdoutWrite sys) world2 of
                       (Some err, world3) \<Rightarrow>
                         (Panicked err, world3,
                          [CallMongoInfo, CallMkDir (dataDir flags),
                           CallDiffLatest (dataDir flags) (sint (contextLine flags))
                             (diffName flags) buffer,
                           CallPrintAndSave])
                     | (None, world3) \<Rightarrow>
                        (case Clean sys latest (keepVersion flags) world3 of
                           (_, world4) \<Rightarrow>
                             (Returned, world4,
                              [CallMongoInfo, CallMkDir (dataDir flags),
                               CallDiffLatest (dataDir flags) (sint (contextLine flags))
                                 (diffName flags) buffer,
                               CallPrintAndSave, CallClean (keepVersion flags)])))))))"

section \<open>Notions used to state the properties\<close>

text \<open>
  A writer that keeps every \<open>Write\<close> it receives, in order, and never fails. Running
  \<open>mongoInfo\<close> on it gives the sequence of writes \<open>mongoInfo\<close> issues.
\<close>

definition recordWrite :: "string list Writer" where
  "recordWrite log s = (log @ [s], None)"

definition sampledWrites :: "'c Driver \<Rightarrow> string \<Rightarrow> string list" where
  "sampledWrites drv uri = snd (mongoInfo drv uri recordWrite [])"

text \<open>
  The sampled text: the content of the \<open>bytes.Buffer\<close> that \<open>main\<close> fills and hands to
  \<open>DiffLatest\<close> as \<open>buffer.String()\<close>; and the error \<open>mongoInfo\<close> returns.
\<close>

definition sampledText :: "'c Driver \<Rightarrow> string \<Rightarrow> string" where
  "sampledText drv uri = snd (mongoInfo drv uri bufferWrite [])"

definition samplingError :: "'c Driver \<Rightarrow> string \<Rightarrow> error option" where
  "samplingError drv uri = fst (mongoInfo drv uri bufferWrite [])"

text \<open>
  All five driver calls of \<open>mongoInfo\<close> return a \<open>nil\<close> error, with these replies.
\<close>

definition succeeds ::
  "'c Driver \<Rightarrow> string \<Rightarrow> 'c \<Rightarrow> string list \<Rightarrow> UsersResp \<Rightarrow> ReplSetConfigResp
     \<Rightarrow> ReplSetStatus \<Rightarrow> bool" where
  "succeeds drv uri c names ur cr st \<longleftrightarrow>
     Connect drv (WithTimeout Background (10 * Second)) uri = Inr c \<and>
     ListDatabaseNames drv c (WithTimeout Background (10 * Second)) = Inr names \<and>
     RunUsersInfo drv c (WithTimeout Background (10 * Second)) = Inr ur \<and>
     RunReplSetGetConfig drv c (WithTimeout Background (10 * Second)) = Inr cr \<and>
     RunReplSetGetStatus drv c (WithTimeout Background (10 * Second)) = Inr st"

text \<open>The driver that is only ever asked under the context \<open>ctx\<close>.\<close>

definition underContext :: "Context \<Rightarrow> 'c Driver \<Rightarrow> 'c Driver" where
  "underContext ctx drv =
     \<lparr>Connect = (\<lambda>_. Connect drv ctx),
      ListDatabaseNames = (\<lambda>c _. ListDatabaseNames drv c ctx),
      RunUsersInfo = (\<lambda>c _. RunUsersInfo drv c ctx),
      RunReplSetGetConfig = (\<lambda>c _. RunReplSetGetConfig drv c ctx),
      RunReplSetGetStatus = (\<lambda>c _. RunReplSetGetStatus drv c ctx)\<rparr>"

text \<open>The records of one sampling, in the order of the four loops.\<close>

definition userLines :: "User \<Rightarrow> string list" where
  "userLines user = userLine user # map (roleLine user) (User_Roles user)"

definition sampleLines ::
  "string list \<Rightarrow> User list \<Rightarrow> ReplSetMemberConfig list \<Rightarrow> ReplMember list \<Rightarrow> string list" where
  "sampleLines names users settings stats =
     map dbLine names @ concat (map userLines users)
       @ map settingLine settings @ map statLine stats"

text \<open>
  The lines of a text: each line feed ends a line; a last line without line feed counts.
\<close>

fun linesOf :: "string \<Rightarrow> string list" where
  "linesOf [] = []"
| "linesOf (c # cs) =
     (if c = CHR 0x0A then [] # linesOf cs
      else (case linesOf cs of [] \<Rightarrow> [[c]] | l # ls \<Rightarrow> (c # l) # ls))"

definition hasPrefix :: "string \<Rightarrow> string \<Rightarrow> bool" where
  "hasPrefix p s \<longleftrightarrow> take (length p) s = p"

datatype Section = DB | USER | USER_ROLE | SETTING | REPL_STAT

definition sectionOf :: "string \<Rightarrow> Section option" where
  "sectionOf l =
     (if hasPrefix ''DB: '' l then Some DB
      else if hasPrefix ''USER: '' l then Some USER
      else if hasPrefix ''USER_ROLE: '' l then Some USER_ROLE
      else if hasPrefix ''SETTING: '' l then Some SETTING
      else if hasPrefix ''REPL_STAT: '' l then Some REPL_STAT
      else None)"

definition prefixed :: "string \<Rightarrow> bool" where
  "prefixed l \<longleftrightarrow> sectionOf l \<noteq> None"

text \<open>
  The sections in their fixed order: one \<open>DB\<close> per database, then per user one
  \<open>USER\<close> followed by one \<open>USER_ROLE\<close> per role of that user, then one \<open>SETTING\<close> per
  configured member, then one \<open>REPL_STAT\<close> per member of the status.
\<close>

definition sectionsOf ::
  "string list \<Rightarrow> User list \<Rightarrow> ReplSetMemberConfig list \<Rightarrow> ReplMember list \<Rightarrow> Section list" where
  "sectionsOf names users settings stats =
     replicate (length names) DB
       @ concat (map (\<lambda>user. USER # replicate (length (User_Roles user)) USER_ROLE) users)
       @ replicate (length settings) SETTING @ replicate (length stats) REPL_STAT"

text \<open>Replies none of whose printed string fields holds a line feed.\<close>

definition noNewline :: "string \<Rightarrow> bool" where
  "noNewline s \<longleftrightarrow> CHR 0x0A \<notin> set s"

definition plainRole :: "Role \<Rightarrow> bool" where
  "plainRole role \<longleftrightarrow> noNewline (Role_DB role) \<and> noNewline (Role_Role role)"

definition plainUser :: "User \<Rightarrow> bool" where
  "plainUser user \<longleftrightarrow>
     noNewline (User_DB user) \<and> noNewline (User_User user)
       \<and> list_all plainRole (User_Roles user)"

definition plainSetting :: "ReplSetMemberConfig \<Rightarrow> bool" where
  "plainSetting setting \<longleftrightarrow> noNewline (ReplSetMemberConfig_Host setting)"

definition plainStat :: "ReplMember \<Rightarrow> bool" where
  "plainStat stat \<longleftrightarrow>
     noNewline (ReplMember_Name stat) \<and> noNewline (ReplMember_StateStr stat) \<and>
     noNewline (ReplMember_SyncSourceHost stat) \<and> noNewline (ReplMember_SyncingTo stat)"

section \<open>Concrete deployments and systems\<close>

text \<open>A driver that answers every call successfully, with the given contents.\<close>

definition answering ::
  "string list \<Rightarrow> User list \<Rightarrow> ReplSetMemberConfig list \<Rightarrow> ReplMember list \<Rightarrow> unit Driver" where
  "answering names users settings stats =
     \<lparr>Connect = (\<lambda>ctx uri. Inr ()),
      ListDatabaseNames = (\<lambda>c ctx. Inr names),
      RunUsersInfo = (\<lambda>c ctx. Inr \<lparr>UsersResp_Users = users\<rparr>),
      RunReplSetGetConfig = (\<lambda>c ctx. Inr \<lparr>ReplSetConfigResp_Config =
         \<lparr>ReplSetConfig_ID = ''rs0'', ReplSetConfig_Members = settings,
          ReplSetConfig_ProtocolVersion = 1\<rparr>\<rparr>),
      RunReplSetGetStatus = (\<lambda>c ctx. Inr
         \<lparr>ReplSetStatus_Members = stats, ReplSetStatus_MyState = 1, ReplSetStatus_OK = 1,
          ReplSetStatus_Set = ''rs0'', ReplSetStatus_Term = 1,
          ReplSetStatus_SyncSourceHost = [], ReplSetStatus_SyncSourceID = - 1,
          ReplSetStatus_SyncingTo = [], ReplSetStatus_HeartbeatIntervalMillis = 2000,
          ReplSetStatus_Date = 0\<rparr>)\<rparr>"

definition rootUser :: User where
  "rootUser =
     \<lparr>User_ID = ''admin.root'', User_DB = ''admin'', User_Mechanisms = [''SCRAM-SHA-1''],
      User_Roles = [\<lparr>Role_DB = ''admin'', Role_Role = ''root''\<rparr>], User_User = ''root''\<rparr>"

definition member0 :: ReplSetMemberConfig where
  "member0 =
     \<lparr>ReplSetMemberConfig_ID = 0, ReplSetMemberConfig_ArbiterOnly = False,
      ReplSetMemberConfig_BuildIndexes = True, ReplSetMemberConfig_Hidden = False,
      ReplSetMemberConfig_Host = ''db0:27017'', ReplSetMemberConfig_Priority = 1,
      ReplSetMemberConfig_SlaveDelay = 0, ReplSetMemberConfig_Votes = 1\<rparr>"

definition stat0 :: ReplMember where
  "stat0 =
     \<lparr>ReplMember_ID = 0, ReplMember_ConfigVersion = 1, ReplMember_InfoMessage = [],
      ReplMember_LastHeartbeat = 0, ReplMember_LastHeartbeatMessage = [],
      ReplMember_LastHeartbeatRecv = 0, ReplMember_Name = ''db0:27017'',
      ReplMember_State = 1, ReplMember_StateStr = ''PRIMARY'',
      ReplMember_SyncSourceHost = [], ReplMember_SyncSourceID = - 1,
      ReplMember_SyncingTo = [], ReplMember_Uptime = 12, ReplMember_ElectionDate = 0,
      ReplMember_Health = 1, ReplMember_PingMS = 0\<rparr>"

definition deployment :: "unit Driver" where
  "deployment = answering [''admin'', ''test''] [rootUser] [member0] [stat0]"

text \<open>The same deployment when the \<open>usersInfo\<close> command runs into the deadline.\<close>

definition stalled :: "unit Driver" where
  "stalled = deployment\<lparr>RunUsersInfo := (\<lambda>c ctx. Inl DeadlineExceeded)\<rparr>"

text \<open>A user whose name holds a line feed.\<close>

definition twoLineUser :: User where
  "twoLineUser =
     \<lparr>User_ID = ''admin.a\<newline>b'', User_DB = ''admin'', User_Mechanisms = [],
      User_Roles = [], User_User = ''a\<newline>b''\<rparr>"

text \<open>
  A system for the runs below: the file system is the list of saved contents, standard
  output is the text written so far, directories always exist, \<open>PrintAndSave\<close> writes
  the content and saves it, \<open>Clean\<close> fails. \<open>closedStdout\<close> is the same system with a
  standard output that rejects every write.
\<close>

definition localhost :: string where
  "localhost = ''mongodb://localhost:27017''"

definition closedWrite :: "string Writer" where
  "closedWrite out s = (out, Some (Failure ''write /dev/stdout: file already closed''))"

definition simpleSystem :: "(string list, string, string) System" where
  "simpleSystem =
     \<lparr>osStdoutWrite = bufferWrite,
      MkDir = (\<lambda>dir world. (None, world)),
      DiffLatest = (\<lambda>dir n name content world. (content, world)),
      PrintAndSave = (\<lambda>latest wr world.
         (None, \<lparr>fs = fs world @ [latest], stdout = fst (wr (stdout world) latest)\<rparr>)),
      Clean = (\<lambda>latest keep world. (Some (Failure ''remove failed''), world))\<rparr>"

definition closedStdout :: "(string list, string, string) System" where
  "closedStdout = simpleSystem\<lparr>osStdoutWrite := closedWrite\<rparr>"

definition emptyWorld :: "(string list, string) World" where
  "emptyWorld = \<lparr>fs = [], stdout = []\<rparr>"

text \<open>The default flags with \<open>-no-diff\<close> given.\<close>

definition reportOnly :: Flags where
  "reportOnly = defaultFlags\<lparr>noDiff := True\<rparr>"

section \<open>The loops as sequences of writes\<close>

lemma writeDatabaseNames_foldl:
  "writeDatabaseNames wr out names = foldl (Fprintf_discard wr) out (map dbLine names)"
  by (induction names arbitrary: out) simp_all

lemma writeRoles_foldl:
  "writeRoles wr out user roles = foldl (Fprintf_discard wr) out (map (roleLine user) roles)"
  by (induction roles arbitrary: out) simp_all

lemma writeUsers_foldl:
  "writeUsers wr out users = foldl (Fprintf_discard wr) out (concat (map userLines users))"
  by (induction users arbitrary: out) (simp_all add: writeRoles_foldl userLines_def)

lemma writeSettings_foldl:
  "writeSettings wr out settings = foldl (Fprintf_discard wr) out (map settingLine settings)"
  by (induction settings arbitrary: out) simp_all

lemma writeStats_foldl:
  "writeStats wr out stats = foldl (Fprintf_discard wr) out (map statLine stats)"
  by (induction stats arbitrary: out) simp_all

lemmas write_foldl =
  writeDatabaseNames_foldl writeUsers_foldl writeSettings_foldl writeStats_foldl

lemma foldl_recordWrite: "foldl (Fprintf_discard recordWrite) log ss = log @ ss"
  by (induction ss arbitrary: log) (simp_all add: Fprintf_discard_def recordWrite_def)

lemma foldl_bufferWrite: "foldl (Fprintf_discard bufferWrite) buf ss = buf @ concat ss"
  by (induction ss arbitrary: buf) (simp_all add: Fprintf_discard_def bufferWrite_def)

text \<open>
  Whatever the writer does, \<open>mongoInfo\<close> returns the same error and issues the same
  writes: no result of a write is ever looked at.
\<close>

lemma mongoInfo_writer:
  "mongoInfo drv uri wr out =
     (fst (mongoInfo drv uri recordWrite []),
      foldl (Fprintf_discard wr) out (snd (mongoInfo drv uri recordWrite [])))"
  by (simp add: mongoInfo_def Let_def write_foldl foldl_recordWrite split: sum.splits)

lemma samplingError_writer: "fst (mongoInfo drv uri wr out) = samplingError drv uri"
  unfolding samplingError_def
  by (subst mongoInfo_writer, subst (2) mongoInfo_writer) simp

text \<open>The error of a sampling is the error of the first driver call that fails.\<close>

lemma samplingError_cases:
  "samplingError drv uri =
     (case Connect drv (WithTimeout Background (10 * Second)) uri of
        Inl err \<Rightarrow> Some err
      | Inr c \<Rightarrow>
         (case ListDatabaseNames drv c (WithTimeout Background (10 * Second)) of
            Inl err \<Rightarrow> Some err
          | Inr names \<Rightarrow>
             (case RunUsersInfo drv c (WithTimeout Background (10 * Second)) of
                Inl err \<Rightarrow> Some err
              | Inr ur \<Rightarrow>
                 (case RunReplSetGetConfig drv c (WithTimeout Background (10 * Second)) of
                    Inl err \<Rightarrow> Some err
                  | Inr cr \<Rightarrow>
                     (case RunReplSetGetStatus drv c (WithTimeout Background (10 * Second)) of
                        Inl err \<Rightarrow> Some err
                      | Inr st \<Rightarrow> None)))))"
  by (simp add: samplingError_def mongoInfo_def Let_def NewMongoManager_def
      AllDatabaseNames_def AllUsers_def Config_def ReplStatus_def split: sum.splits)

lemma mongoInfo_writes:
  "snd (mongoInfo drv uri wr out) = foldl (Fprintf_discard wr) out (sampledWrites drv uri)"
  unfolding sampledWrites_def
  by (subst mongoInfo_writer) simp

lemma sampledText_concat: "sampledText drv uri = concat (sampledWrites drv uri)"
  by (simp add: sampledText_def mongoInfo_writes foldl_bufferWrite)

lemma mongoInfo_succeeds:
  assumes "succeeds drv uri c names ur cr st"
  shows "mongoInfo drv uri wr out =
     (None, foldl (Fprintf_discard wr) out
        (sampleLines names (UsersResp_Users ur)
           (ReplSetConfig_Members (ReplSetConfigResp_Config cr)) (ReplSetStatus_Members st)))"
  using assms
  by (simp add: succeeds_def mongoInfo_def Let_def write_foldl sampleLines_def
      NewMongoManager_def AllDatabaseNames_def AllUsers_def Config_def ReplStatus_def)

lemma mongoInfo_underContext:
  "mongoInfo (underContext (WithTimeout Background (10 * Second)) drv) uri wr out
     = mongoInfo drv uri wr out"
  by (simp add: mongoInfo_def underContext_def Let_def
      NewMongoManager_def AllDatabaseNames_def AllUsers_def Config_def ReplStatus_def
      cong: sum.case_cong)

section \<open>The two modes of main\<close>

lemma main_noDiff:
  assumes "noDiff flags"
  shows "main drv sys flags world =
     ((case samplingError drv (mongoURI flags) of None \<Rightarrow> Returned | Some err \<Rightarrow> Panicked err),
      world\<lparr>stdout := foldl (Fprintf_discard (osStdoutWrite sys)) (stdout world)
                          (sampledWrites drv (mongoURI flags))\<rparr>,
      [CallMongoInfo])"
proof -
  obtain e out where
    m: "mongoInfo drv (mongoURI flags) (osStdoutWrite sys) (stdout world) = (e, out)"
    by (cases "mongoInfo drv (mongoURI flags) (osStdoutWrite sys) (stdout world)")
  have e: "e = samplingError drv (mongoURI flags)"
    using samplingError_writer [of drv "mongoURI flags" "osStdoutWrite sys" "stdout world"] m
    by simp
  have out: "out = foldl (Fprintf_discard (osStdoutWrite sys)) (stdout world)
                          (sampledWrites drv (mongoURI flags))"
    using mongoInfo_writes [of drv "mongoURI flags" "osStdoutWrite sys" "stdout world"] m
    by simp
  show ?thesis
    using assms m e out by (simp add: main_def split: option.splits)
qed

lemma main_sampling_fails:
  assumes "samplingError drv (mongoURI flags) = Some err" and "\<not> noDiff flags"
  shows "main drv sys flags world = (Panicked err, world, [CallMongoInfo])"
proof -
  obtain e buffer where m: "mongoInfo drv (mongoURI flags) bufferWrite [] = (e, buffer)"
    by (cases "mongoInfo drv (mongoURI flags) bufferWrite []")
  then have "e = Some err"
    using assms(1) by (simp add: samplingError_def)
  then show ?thesis
    using assms(2) m by (simp add: main_def)
qed

text \<open>
  A run in diff mode in which sampling, \<open>MkDir\<close> and \<open>PrintAndSave\<close> succeed: the content
  handed to \<open>DiffLatest\<close> is the sampled text, \<open>PrintAndSave\<close> and \<open>Clean\<close> are called
  whatever the text is, and the result \<open>r\<close> of \<open>Clean\<close> is dropped.
\<close>

lemma main_diff_run:
  assumes "\<not> noDiff flags" and "samplingError drv (mongoURI flags) = None"
    and "MkDir sys (dataDir flags) world = (None, world1)"
    and "DiffLatest sys (dataDir flags) (sint (contextLine flags)) (diffName flags)
           (sampledText drv (mongoURI flags)) world1 = (latest, world2)"
    and "PrintAndSave sys latest (osStdoutWrite sys) world2 = (None, world3)"
    and "Clean sys latest (keepVersion flags) world3 = (r, world4)"
  shows "main drv sys flags world =
     (Returned, world4,
      [CallMongoInfo, CallMkDir (dataDir flags),
       CallDiffLatest (dataDir flags) (sint (contextLine flags)) (diffName flags)
         (sampledText drv (mongoURI flags)),
       CallPrintAndSave, CallClean (keepVersion flags)])"
proof -
  have "mongoInfo drv (mongoURI flags) bufferWrite []
          = (None, sampledText drv (mongoURI flags))"
    using assms(2) by (simp add: samplingError_def sampledText_def prod_eq_iff)
  then show ?thesis
    using assms by (simp add: main_def)
qed

section \<open>Lines of the sampled text\<close>

lemma linesOf_line: "CHR 0x0A \<notin> set l \<Longrightarrow> linesOf (l @ CHR 0x0A # rest) = l # linesOf rest"
  by (induction l) auto

lemma linesOf_records:
  "\<forall>r \<in> set rs. \<exists>b. r = b @ [CHR 0x0A] \<and> CHR 0x0A \<notin> set b
     \<Longrightarrow> linesOf (concat rs) = map butlast rs"
proof (induction rs)
  case Nil
  then show ?case by simp
next
  case (Cons r rs)
  then obtain b where b: "r = b @ [CHR 0x0A]" "CHR 0x0A \<notin> set b"
    by auto
  have "linesOf (concat (r # rs)) = linesOf (b @ CHR 0x0A # concat rs)"
    using b by simp
  also have "\<dots> = b # linesOf (concat rs)"
    using b by (simp add: linesOf_line)
  finally show ?case
    using Cons b by simp
qed

lemma digit_not_newline: "n < 10 \<Longrightarrow> digit n \<noteq> CHR 0x0A"
proof
  assume n: "n < 10" and "digit n = CHR 0x0A"
  then have "(of_char (char_of (48 + n)) :: nat) = of_char (CHR 0x0A)"
    by (simp add: digit_def)
  then show False using n by simp
qed

lemma showNat_no_newline: "CHR 0x0A \<notin> set (showNat n)"
proof (induction n rule: showNat.induct)
  case (1 n)
  have "n mod 10 < 10" by simp
  then have "digit (n mod 10) \<noteq> CHR 0x0A" by (rule digit_not_newline)
  with 1 show ?case
    by (subst showNat.simps) (auto dest: digit_not_newline [of n])
qed

lemma fmt_d_no_newline: "CHR 0x0A \<notin> set (fmt_d i)"
  by (simp add: fmt_d_def showNat_no_newline)

lemma fmt_v_no_newline: "CHR 0x0A \<notin> set (fmt_v b)"
  by (simp add: fmt_v_def)

lemma dbLine_record:
  "noNewline name \<Longrightarrow> \<exists>b. dbLine name = b @ [CHR 0x0A] \<and> CHR 0x0A \<notin> set b"
  by (rule exI [of _ "''DB: '' @ name"]) (simp add: dbLine_def noNewline_def)

lemma userLine_record:
  "plainUser user \<Longrightarrow> \<exists>b. userLine user = b @ [CHR 0x0A] \<and> CHR 0x0A \<notin> set b"
  by (rule exI [of _ "''USER: db='' @ User_DB user @ '', user='' @ User_User user"])
    (simp add: userLine_def plainUser_def noNewline_def)

lemma roleLine_record:
  "plainUser user \<Longrightarrow> role \<in> set (User_Roles user)
     \<Longrightarrow> \<exists>b. roleLine user role = b @ [CHR 0x0A] \<and> CHR 0x0A \<notin> set b"
  by (rule exI [of _ "''USER_ROLE: db='' @ User_DB user @ '', user='' @ User_User user
       @ '', role='' @ Role_DB role @ ''/'' @ Role_Role role"])
    (simp add: roleLine_def plainUser_def plainRole_def noNewline_def list_all_iff)

lemma settingLine_record:
  "plainSetting setting \<Longrightarrow> \<exists>b. settingLine setting = b @ [CHR 0x0A] \<and> CHR 0x0A \<notin> set b"
  by (rule exI [of _ "butlast (settingLine setting)"])
    (simp add: settingLine_def plainSetting_def noNewline_def butlast_append
      fmt_d_no_newline fmt_v_no_newline)

lemma statLine_record:
  "plainStat stat \<Longrightarrow> \<exists>b. statLine stat = b @ [CHR 0x0A] \<and> CHR 0x0A \<notin> set b"
  by (rule exI [of _ "butlast (statLine stat)"])
    (simp add: statLine_def plainStat_def noNewline_def butlast_append fmt_d_no_newline)

lemma sampleLines_records:
  assumes "list_all noNewline names" and "list_all plainUser users"
    and "list_all plainSetting settings" and "list_all plainStat stats"
  shows "\<forall>r \<in> set (sampleLines names users settings stats).
           \<exists>b. r = b @ [CHR 0x0A] \<and> CHR 0x0A \<notin> set b"
  using assms
  by (auto simp: sampleLines_def userLines_def list_all_iff
      intro: dbLine_record userLine_record roleLine_record settingLine_record statLine_record)

lemma sectionOf_dbLine: "sectionOf (butlast (dbLine name)) = Some DB"
  by (simp add: sectionOf_def hasPrefix_def dbLine_def butlast_append)

lemma sectionOf_userLine: "sectionOf (butlast (userLine user)) = Some USER"
  by (simp add: sectionOf_def hasPrefix_def userLine_def butlast_append)

lemma sectionOf_roleLine: "sectionOf (butlast (roleLine user role)) = Some USER_ROLE"
  by (simp add: sectionOf_def hasPrefix_def roleLine_def butlast_append)

lemma sectionOf_settingLine: "sectionOf (butlast (settingLine setting)) = Some SETTING"
  by (simp add: sectionOf_def hasPrefix_def settingLine_def butlast_append)

lemma sectionOf_statLine: "sectionOf (butlast (statLine stat)) = Some REPL_STAT"
  by (simp add: sectionOf_def hasPrefix_def statLine_def butlast_append)

lemma sections_userLines:
  "map (\<lambda>r. sectionOf (butlast r)) (userLines user)
     = map Some (USER # replicate (length (User_Roles user)) USER_ROLE)"
  by (simp add: userLines_def sectionOf_userLine sectionOf_roleLine comp_def map_replicate_const)

lemma sections_sampleLines:
  "map (\<lambda>r. sectionOf (butlast r)) (sampleLines names users settings stats)
     = map Some (sectionsOf names users settings stats)"
  by (simp add: sampleLines_def sectionsOf_def map_concat comp_def sections_userLines
      sectionOf_dbLine sectionOf_settingLine sectionOf_statLine map_replicate_const)

section \<open>The concrete deployments\<close>

lemma deployment_succeeds:
  "succeeds deployment localhost () [''admin'', ''test''] \<lparr>UsersResp_Users = [rootUser]\<rparr>
     \<lparr>ReplSetConfigResp_Config =
        \<lparr>ReplSetConfig_ID = ''rs0'', ReplSetConfig_Members = [member0],
         ReplSetConfig_ProtocolVersion = 1\<rparr>\<rparr>
     \<lparr>ReplSetStatus_Members = [stat0], ReplSetStatus_MyState = 1, ReplSetStatus_OK = 1,
      ReplSetStatus_Set = ''rs0'', ReplSetStatus_Term = 1,
      ReplSetStatus_SyncSourceHost = [], ReplSetStatus_SyncSourceID = - 1,
      ReplSetStatus_SyncingTo = [], ReplSetStatus_HeartbeatIntervalMillis = 2000,
      ReplSetStatus_Date = 0\<rparr>"
  by (simp add: succeeds_def deployment_def answering_def)

lemma deployment_lines:
  "sampleLines [''admin'', ''test''] [rootUser] [member0] [stat0] =
     [''DB: admin\<newline>'', ''DB: test\<newline>'', ''USER: db=admin, user=root\<newline>'',
      ''USER_ROLE: db=admin, user=root, role=admin/root\<newline>'',
      ''SETTING: id=0, host=db0:27017, vote=1, arbiterOnly=false, buildIndexes=true, hidden=false, priority=1\<newline>'',
      ''REPL_STAT: id=0, name=db0:27017, state=PRIMARY, health=1, syncSourceHost=, syncingTo=\<newline>'']"
  by code_simp

lemma deployment_plain:
  "noNewline ''admin''" "noNewline ''test''" "plainUser rootUser"
  "plainSetting member0" "plainStat stat0"
  by (simp_all add: noNewline_def plainUser_def plainRole_def plainSetting_def plainStat_def
      rootUser_def member0_def stat0_def)

lemma stalled_error: "samplingError stalled localhost = Some DeadlineExceeded"
  by (simp add: samplingError_def stalled_def deployment_def answering_def mongoInfo_def
      Let_def NewMongoManager_def AllDatabaseNames_def AllUsers_def)

lemma reportOnly_flags: "noDiff reportOnly" "mongoURI reportOnly = localhost"
  by (simp_all add: reportOnly_def defaultFlags_def localhost_def)

lemma defaultFlags_flags: "\<not> noDiff defaultFlags" "mongoURI defaultFlags = localhost"
  by (simp_all add: defaultFlags_def localhost_def)

lemma deployment_writes:
  "sampledWrites deployment localhost =
     [''DB: admin\<newline>'', ''DB: test\<newline>'', ''USER: db=admin, user=root\<newline>'',
      ''USER_ROLE: db=admin, user=root, role=admin/root\<newline>'',
      ''SETTING: id=0, host=db0:27017, vote=1, arbiterOnly=false, buildIndexes=true, hidden=false, priority=1\<newline>'',
      ''REPL_STAT: id=0, name=db0:27017, state=PRIMARY, health=1, syncSourceHost=, syncingTo=\<newline>'']"
proof -
  have "sampledWrites deployment localhost
          = sampleLines [''admin'', ''test''] [rootUser] [member0] [stat0]"
    using mongoInfo_succeeds [OF deployment_succeeds, of recordWrite "[]"]
    by (simp add: sampledWrites_def foldl_recordWrite)
  then show ?thesis
    by (simp only: deployment_lines)
qed

lemma deployment_error: "samplingError deployment localhost = None"
  using mongoInfo_succeeds [OF deployment_succeeds, of bufferWrite "[]"]
  by (simp add: samplingError_def)

section \<open>Report-only mode\<close>

text \<open>
  C5. With the no-diff flag set, \<open>main\<close> makes one call, \<open>mongoInfo\<close> on standard output,
  and nothing else: no \<open>MkDir\<close>, no \<open>DiffLatest\<close>, no \<open>PrintAndSave\<close>, no \<open>Clean\<close>, and
  the file system is the one it started with. Standard output receives, write by write,
  exactly the writes of the sampling, and their concatenation is the sampled text that a
  run in diff mode would hand to \<open>DiffLatest\<close>. The run returns when sampling succeeds and
  panics with the sampling error otherwise.
\<close>

theorem no_diff_report_only:
  assumes "noDiff flags"
  shows "case main drv sys flags world of (outcome, world', calls) \<Rightarrow>
           calls = [CallMongoInfo] \<and> fs world' = fs world \<and>
           stdout world' = foldl (Fprintf_discard (osStdoutWrite sys)) (stdout world)
                             (sampledWrites drv (mongoURI flags)) \<and>
           concat (sampledWrites drv (mongoURI flags)) = sampledText drv (mongoURI flags) \<and>
           outcome = (case samplingError drv (mongoURI flags) of
                        None \<Rightarrow> Returned | Some err \<Rightarrow> Panicked err)"
  by (simp add: main_noDiff [OF assms] sampledText_concat)

text \<open>
  The default deployment in report-only mode on an empty world whose standard output
  appends: the output is the raw text and no version exists afterwards.
\<close>

theorem no_diff_report_only_witness:
  "noDiff reportOnly \<and>
   (case main deployment simpleSystem reportOnly emptyWorld of (outcome, world', calls) \<Rightarrow>
      calls = [CallMongoInfo] \<and> fs world' = [] \<and> outcome = Returned \<and>
      stdout world' =
        ''DB: admin\<newline>DB: test\<newline>USER: db=admin, user=root\<newline>USER_ROLE: db=admin, user=root, role=admin/root\<newline>SETTING: id=0, host=db0:27017, vote=1, arbiterOnly=false, buildIndexes=true, hidden=false, priority=1\<newline>REPL_STAT: id=0, name=db0:27017, state=PRIMARY, health=1, syncSourceHost=, syncingTo=\<newline>'')"
  using no_diff_report_only [OF reportOnly_flags(1),
      where drv = deployment and sys = simpleSystem and world = emptyWorld]
  by (simp add: reportOnly_flags deployment_writes deployment_error simpleSystem_def
      emptyWorld_def Fprintf_discard_def bufferWrite_def split: prod.splits)

section \<open>Sampling failures\<close>

text \<open>
  C6. Every driver call of \<open>mongoInfo\<close> is made under the context
  \<open>WithTimeout Background (10 * Second)\<close>: how the driver behaves under any other
  context does not matter. When \<open>mongoInfo\<close> returns an error (a passed deadline, a
  failed connection or a failed command), \<open>main\<close> panics with that error after the one call
  to \<open>mongoInfo\<close>: no \<open>MkDir\<close>, no \<open>DiffLatest\<close>, no \<open>PrintAndSave\<close>, no \<open>Clean\<close>; the file
  system is unchanged, and in diff mode so is standard output.
\<close>

theorem sampling_failure_aborts:
  "mongoInfo (underContext (WithTimeout Background (10 * Second)) drv) uri wr out
     = mongoInfo drv uri wr out \<and>
   (samplingError drv (mongoURI flags) = Some err \<longrightarrow>
      (case main drv sys flags world of (outcome, world', calls) \<Rightarrow>
         outcome = Panicked err \<and> calls = [CallMongoInfo] \<and> fs world' = fs world \<and>
         (\<not> noDiff flags \<longrightarrow> world' = world)))"
proof (intro conjI impI)
  show "mongoInfo (underContext (WithTimeout Background (10 * Second)) drv) uri wr out
          = mongoInfo drv uri wr out"
    by (rule mongoInfo_underContext)
next
  assume e: "samplingError drv (mongoURI flags) = Some err"
  show "case main drv sys flags world of (outcome, world', calls) \<Rightarrow>
         outcome = Panicked err \<and> calls = [CallMongoInfo] \<and> fs world' = fs world \<and>
         (\<not> noDiff flags \<longrightarrow> world' = world)"
  proof (cases "noDiff flags")
    case True
    then show ?thesis
      using e by (simp add: main_noDiff [OF True])
  next
    case False
    then show ?thesis
      by (simp add: main_sampling_fails [OF e False])
  qed
qed

text \<open>The \<open>usersInfo\<close> command runs into the deadline in a run with the default flags.\<close>

theorem sampling_failure_aborts_witness:
  "samplingError stalled (mongoURI defaultFlags) = Some DeadlineExceeded \<and>
   main stalled simpleSystem defaultFlags emptyWorld
     = (Panicked DeadlineExceeded, emptyWorld, [CallMongoInfo])"
proof -
  have e: "samplingError stalled (mongoURI defaultFlags) = Some DeadlineExceeded"
    by (simp add: defaultFlags_flags stalled_error)
  show ?thesis
    using e defaultFlags_flags(1)
      sampling_failure_aborts [where drv = stalled and uri = localhost and wr = bufferWrite
        and out = "[]" and flags = defaultFlags and err = DeadlineExceeded
        and sys = simpleSystem and world = emptyWorld]
    by (cases "main stalled simpleSystem defaultFlags emptyWorld") simp
qed

section \<open>The shape of the sampled text\<close>

text \<open>
  C8 as stated fails: a user name may hold a line feed. Sampling succeeds, the record of
  that user spreads over two lines, and the second line begins with none of the five
  prefixes.
\<close>

theorem one_record_per_line_counterexample:
  "samplingError (answering [] [twoLineUser] [] []) localhost = None \<and>
   linesOf (sampledText (answering [] [twoLineUser] [] []) localhost)
     = [''USER: db=admin, user=a'', ''b''] \<and>
   \<not> list_all prefixed (linesOf (sampledText (answering [] [twoLineUser] [] []) localhost))"
  by code_simp

text \<open>
  C8, amended. When sampling succeeds and no printed string field of the replies holds a
  line feed, the lines of the sampled text are the records, one per line, in the order
  of the four loops: each line is a record without its closing line feed, and the
  sections of the lines are one \<open>DB\<close> per database name, then for each user one \<open>USER\<close>
  followed at once by one \<open>USER_ROLE\<close> per role of that user, then one \<open>SETTING\<close> per
  configured member, then one \<open>REPL_STAT\<close> per member of the status.
\<close>

theorem sampled_lines:
  assumes "succeeds drv uri c names ur cr st"
    and "list_all noNewline names"
    and "list_all plainUser (UsersResp_Users ur)"
    and "list_all plainSetting (ReplSetConfig_Members (ReplSetConfigResp_Config cr))"
    and "list_all plainStat (ReplSetStatus_Members st)"
  shows "linesOf (sampledText drv uri)
           = map butlast (sampleLines names (UsersResp_Users ur)
               (ReplSetConfig_Members (ReplSetConfigResp_Config cr)) (ReplSetStatus_Members st))
         \<and> map sectionOf (linesOf (sampledText drv uri))
           = map Some (sectionsOf names (UsersResp_Users ur)
               (ReplSetConfig_Members (ReplSetConfigResp_Config cr)) (ReplSetStatus_Members st))"
proof -
  let ?rs = "sampleLines names (UsersResp_Users ur)
               (ReplSetConfig_Members (ReplSetConfigResp_Config cr)) (ReplSetStatus_Members st)"
  have "sampledText drv uri = concat ?rs"
    using mongoInfo_succeeds [OF assms(1), of bufferWrite "[]"]
    by (simp add: sampledText_def foldl_bufferWrite)
  moreover have "linesOf (concat ?rs) = map butlast ?rs"
    by (rule linesOf_records) (rule sampleLines_records [OF assms(2-5)])
  ultimately have l: "linesOf (sampledText drv uri) = map butlast ?rs"
    by simp
  show ?thesis
    using sections_sampleLines [of names "UsersResp_Users ur"
        "ReplSetConfig_Members (ReplSetConfigResp_Config cr)" "ReplSetStatus_Members st"]
    by (simp add: l comp_def)
qed

text \<open>The default deployment: six records, six lines, sections in order.\<close>

theorem sampled_lines_witness:
  "linesOf (sampledText deployment localhost) =
     [''DB: admin'', ''DB: test'', ''USER: db=admin, user=root'',
      ''USER_ROLE: db=admin, user=root, role=admin/root'',
      ''SETTING: id=0, host=db0:27017, vote=1, arbiterOnly=false, buildIndexes=true, hidden=false, priority=1'',
      ''REPL_STAT: id=0, name=db0:27017, state=PRIMARY, health=1, syncSourceHost=, syncingTo='']
   \<and> map sectionOf (linesOf (sampledText deployment localhost))
     = [Some DB, Some DB, Some USER, Some USER_ROLE, Some SETTING, Some REPL_STAT]"
proof -
  have s: "sectionsOf [''admin'', ''test''] [rootUser] [member0] [stat0]
             = [DB, DB, USER, USER_ROLE, SETTING, REPL_STAT]"
    by (simp add: sectionsOf_def rootUser_def)
  show ?thesis
    using sampled_lines [OF deployment_succeeds]
    by (simp add: deployment_plain deployment_lines s sectionOf_def hasPrefix_def)
qed

section \<open>The order within a section\<close>

text \<open>
  C9 as stated fails: nothing is sorted. A driver that returns the database names
  \<open>b, a\<close> yields the lines in that order, and the text differs from the one for the
  same names returned as \<open>a, b\<close>.
\<close>

theorem stable_order_counterexample:
  "linesOf (sampledText (answering [''b'', ''a''] [] [] []) localhost) = [''DB: b'', ''DB: a''] \<and>
   sampledText (answering [''b'', ''a''] [] [] []) localhost
     \<noteq> sampledText (answering [''a'', ''b''] [] [] []) localhost"
  by code_simp

text \<open>
  C9, amended. When sampling succeeds, the writes of \<open>mongoInfo\<close> are the records of each
  section in exactly the order in which the driver returned them (database names, users
  and the roles within each user, configured members, status members), and the sampled
  text is their concatenation. The line order is as stable across runs as the order of
  the replies, and no more.
\<close>

theorem sampled_in_reply_order:
  assumes "succeeds drv uri c names ur cr st"
  shows "sampledWrites drv uri =
           map dbLine names
           @ concat (map (\<lambda>user. userLine user # map (roleLine user) (User_Roles user))
                       (UsersResp_Users ur))
           @ map settingLine (ReplSetConfig_Members (ReplSetConfigResp_Config cr))
           @ map statLine (ReplSetStatus_Members st)
         \<and> sampledText drv uri = concat (sampledWrites drv uri)"
  using mongoInfo_succeeds [OF assms, of recordWrite "[]"]
  by (simp add: sampledWrites_def foldl_recordWrite sampleLines_def userLines_def [abs_def]
      sampledText_concat [unfolded sampledWrites_def])

text \<open>The default deployment: the six writes in the order of the replies.\<close>

theorem sampled_in_reply_order_witness:
  "sampledWrites deployment localhost =
     [dbLine ''admin'', dbLine ''test'', userLine rootUser,
      roleLine rootUser \<lparr>Role_DB = ''admin'', Role_Role = ''root''\<rparr>,
      settingLine member0, statLine stat0]
   \<and> sampledText deployment localhost = concat (sampledWrites deployment localhost)"
  using sampled_in_reply_order [OF deployment_succeeds]
  by (simp add: rootUser_def)

section \<open>Failing writes\<close>

text \<open>
  C10. When all five driver calls succeed, \<open>mongoInfo\<close> returns no error for every writer
  and every state of it, also a writer that fails on each write; and a run in
  report-only mode, where these writes go to standard output, returns with exit
  status 0.
\<close>

theorem write_errors_discarded:
  assumes "succeeds drv uri c names ur cr st"
  shows "fst (mongoInfo drv uri wr out) = None \<and>
         (noDiff flags \<and> mongoURI flags = uri \<longrightarrow>
            fst (main drv sys flags world) = Returned \<and>
            exitStatus (fst (main drv sys flags world)) = 0)"
proof -
  have n: "fst (mongoInfo drv uri wr out) = None" for wr :: "'w Writer" and out
    using mongoInfo_succeeds [OF assms, of wr out] by simp
  have "samplingError drv uri = None"
    using n [of bufferWrite "[]"] by (simp add: samplingError_def)
  then show ?thesis
    using n [of wr out] by (auto simp: main_noDiff)
qed

text \<open>The default deployment in report-only mode with a standard output that rejects every write.\<close>

theorem write_errors_discarded_witness:
  "snd (osStdoutWrite closedStdout [] ''DB: admin\<newline>'') \<noteq> None \<and>
   fst (mongoInfo deployment localhost closedWrite []) = None \<and>
   fst (main deployment closedStdout reportOnly emptyWorld) = Returned \<and>
   exitStatus (fst (main deployment closedStdout reportOnly emptyWorld)) = 0"
  using write_errors_discarded [OF deployment_succeeds,
      where wr = closedWrite and out = "[]" and flags = reportOnly
        and sys = closedStdout and world = emptyWorld]
  by (simp add: reportOnly_flags closedStdout_def closedWrite_def simpleSystem_def)

end
